theory Spec2Isabelle
  imports Main "HOL-Library.Signed_Division"
begin

section \<open>The high-level intercore application (main_a7.c)\<close>

text \<open>
  The program is a single-threaded event loop with two callbacks.  Its C globals become a
  record that every function takes and returns.  Every call that leaves the file (the
  dispatcher, the socket, the log, the timer utilities) appends one entry to a trace held
  in that record; what such a call answers is read from an environment script, so that the
  program is a function of its script.
\<close>

subsection \<open>Exit codes\<close>

datatype ExitCode =
    ExitCode_Success
  | ExitCode_TermHandler_SigTerm
  | ExitCode_TimerHandler_Consume
  | ExitCode_SendMsg_Send
  | ExitCode_SocketHandler_Recv
  | ExitCode_Init_EventLoop
  | ExitCode_Init_SendTimer
  | ExitCode_Init_Connection
  | ExitCode_Init_SetSockOpt
  | ExitCode_Init_RegisterIo
  | ExitCode_Main_EventLoopFail
  | ExitCode_Main_EventLoopSimReboot

fun ExitCode_value :: "ExitCode \<Rightarrow> int" where
  "ExitCode_value ExitCode_Success = 0"
| "ExitCode_value ExitCode_TermHandler_SigTerm = 1"
| "ExitCode_value ExitCode_TimerHandler_Consume = 2"
| "ExitCode_value ExitCode_SendMsg_Send = 3"
| "ExitCode_value ExitCode_SocketHandler_Recv = 4"
| "ExitCode_value ExitCode_Init_EventLoop = 5"
| "ExitCode_value ExitCode_Init_SendTimer = 6"
| "ExitCode_value ExitCode_Init_Connection = 7"
| "ExitCode_value ExitCode_Init_SetSockOpt = 8"
| "ExitCode_value ExitCode_Init_RegisterIo = 9"
| "ExitCode_value ExitCode_Main_EventLoopFail = 10"
| "ExitCode_value ExitCode_Main_EventLoopSimReboot = 11"

subsection \<open>Constants and library types the file takes from headers\<close>

definition RECV_BUFF_SIZE :: nat where
  "RECV_BUFF_SIZE = 32"

text \<open>
  The headers errno.h and applibs/eventloop.h are not part of the sources at hand.  The
  code only compares errno with EINTR and the dispatcher's result with
  EventLoop_Run_Failed, so the number behind EINTR (4 on Linux) and the other values of
  the result type do not influence any branch.
\<close>

definition EINTR :: int where
  "EINTR = 4"

datatype EventLoop_Run_Result = EventLoop_Run_Failed | EventLoop_Run_FinishedEmpty

text \<open>A pointer to an object of a library: \<open>None\<close> is NULL.\<close>

type_synonym ptr = "nat option"

definition rtAppComponentId :: string where
  "rtAppComponentId = ''005180bc-402f-4cb3-a662-72937dbcde47''"

subsection \<open>Calls that leave the file\<close>

datatype log_arg = Arg_int int | Arg_str string | Arg_char char | Arg_strerror int

datatype action =
    Log_Debug string "log_arg list"
  | Call_sigaction_SIGTERM
  | Call_EventLoop_Create
  | Call_CreateEventLoopPeriodicTimer ptr int int
  | Call_Application_Connect string
  | Call_setsockopt_SO_RCVTIMEO int int int
  | Call_EventLoop_RegisterIo ptr int
  | Call_EventLoop_Run ptr int bool
  | Call_ConsumeEventLoopTimerEvent ptr
  | Call_send int string nat
  | Call_recv int nat
  | Call_DisposeEventLoopTimer ptr
  | Call_EventLoop_UnregisterIo ptr ptr
  | Call_EventLoop_Close ptr
  | Call_close int
  | Call_nanosleep int int

subsection \<open>Global state\<close>

text \<open>
  The file-level statics \<open>sockFd\<close>, \<open>eventLoop\<close>, \<open>sendTimer\<close>, \<open>socketEventReg\<close>
  and \<open>exitCode\<close>, the function-level static \<open>iter\<close> of SendMessageToRTApp, and the
  trace of calls made so far (oldest first).
\<close>

record globals =
  sockFd :: int
  eventLoop :: ptr
  sendTimer :: ptr
  socketEventReg :: ptr
  exitCode :: ExitCode
  iter :: int
  trace :: "action list"

definition initial_globals :: globals where
  "initial_globals =
     \<lparr>sockFd = - 1, eventLoop = None, sendTimer = None, socketEventReg = None,
      exitCode = ExitCode_Success, iter = 0, trace = []\<rparr>"

definition call :: "action \<Rightarrow> globals \<Rightarrow> globals" where
  "call a s = s\<lparr>trace := trace s @ [a]\<rparr>"

subsection \<open>The environment script\<close>

text \<open>
  What happens while the program is blocked in one EventLoop_Run: SIGTERM is delivered
  (the handler runs), the timer fires (with the answers of ConsumeEventLoopTimerEvent and
  of send, the latter with its errno), or the socket is readable (with the answer of recv,
  the contents of the receive buffer after the call, and errno).
\<close>

datatype event =
    Sigterm
  | Timer_fires int "int \<times> int"
  | Socket_readable int string int

record run_return =
  run_events :: "event list"
  run_result :: EventLoop_Run_Result
  run_errno :: int

text \<open>
  The answers for one pass through RunLoop.  The list \<open>runs\<close> holds the successive
  returns of EventLoop_Run; the dispatcher waits without timeout, so when the list is
  used up the next wait never returns.  The program blocks in one more call, the
  nanosleep of the simulated reboot: \<open>nanosleep_sigterm\<close> tells whether SIGTERM is
  delivered (and the handler runs) while it sleeps there.
\<close>

record cycle_env =
  r_EventLoop_Create :: ptr
  r_CreateEventLoopPeriodicTimer :: ptr
  r_Application_Connect :: "int \<times> int"
  r_setsockopt :: "int \<times> int"
  r_EventLoop_RegisterIo :: "ptr \<times> int"
  runs :: "run_return list"
  r_close :: "int \<times> int"
  nanosleep_sigterm :: bool
  r_nanosleep :: int

subsection \<open>C library functions used by the file\<close>

text \<open>
  Reading a character array.  An array is the list of its bytes; a byte outside the list
  reads as NUL.  The string literal therefore carries its terminator, and no function
  below reads the receive buffer beyond the count that recv returned.
\<close>

definition char_at :: "string \<Rightarrow> nat \<Rightarrow> char" where
  "char_at a i = (if i < length a then a ! i else CHR 0x00)"

fun strncmp_from :: "string \<Rightarrow> string \<Rightarrow> nat \<Rightarrow> nat \<Rightarrow> int" where
  "strncmp_from s1 s2 i 0 = 0"
| "strncmp_from s1 s2 i (Suc n) =
     (let c1 = char_at s1 i; c2 = char_at s2 i
      in if c1 \<noteq> c2 then int (of_char c1) - int (of_char c2)
         else if c1 = CHR 0x00 then 0
         else strncmp_from s1 s2 (Suc i) n)"

definition strncmp :: "string \<Rightarrow> string \<Rightarrow> nat \<Rightarrow> int" where
  "strncmp s1 s2 n = strncmp_from s1 s2 0 n"

definition isprint :: "char \<Rightarrow> bool" where
  "isprint c = (32 \<le> (of_char c :: nat) \<and> (of_char c :: nat) \<le> 126)"

definition digit_char :: "nat \<Rightarrow> char" where
  "digit_char d = char_of (48 + d)"

fun dec_nat :: "nat \<Rightarrow> string" where
  "dec_nat n = (if n < 10 then [digit_char n] else dec_nat (n div 10) @ [digit_char (n mod 10)])"

declare dec_nat.simps [simp del]

text \<open>The conversion \<open>%02d\<close>: at least two characters, padded with zeros on the left.\<close>

definition printf_02d :: "int \<Rightarrow> string" where
  "printf_02d i =
     (if i < 0 then CHR ''-'' # dec_nat (nat (- i))
      else replicate (2 - length (dec_nat (nat i))) CHR ''0'' @ dec_nat (nat i))"

text \<open>\<open>snprintf(txMessage, sizeof(txMessage), "hl-app-to-rt-app-adding%02d", iter)\<close>
  with the 48-byte buffer: at most 47 characters and the terminator.\<close>

definition snprintf_txMessage :: "int \<Rightarrow> string" where
  "snprintf_txMessage i = take 47 (''hl-app-to-rt-app-adding'' @ printf_02d i)"

subsection \<open>Handlers\<close>

definition TerminationHandler :: "int \<Rightarrow> globals \<Rightarrow> globals" where
  "TerminationHandler signalNumber s = s\<lparr>exitCode := ExitCode_TermHandler_SigTerm\<rparr>"

definition SendMessageToRTApp :: "int \<times> int \<Rightarrow> globals \<Rightarrow> globals" where
  "SendMessageToRTApp r s =
     (let txMessage = snprintf_txMessage (iter s);
          s1 = s\<lparr>iter := (iter s + 1) smod 100\<rparr>;
          s2 = call (Log_Debug ''Sending: %s\<newline>'' [Arg_str txMessage]) s1;
          s3 = call (Call_send (sockFd s2) txMessage (length txMessage)) s2;
          bytesSent = fst r
      in if bytesSent = - 1
         then (call (Log_Debug ''ERROR: Unable to send message: %d (%s)\<newline>''
                       [Arg_int (snd r), Arg_strerror (snd r)]) s3)
                \<lparr>exitCode := ExitCode_SendMsg_Send\<rparr>
         else s3)"

definition SendTimerEventHandler :: "ptr \<Rightarrow> int \<Rightarrow> int \<times> int \<Rightarrow> globals \<Rightarrow> globals" where
  "SendTimerEventHandler timer consumed r s =
     (let s1 = call (Call_ConsumeEventLoopTimerEvent timer) s
      in if consumed \<noteq> 0 then s1\<lparr>exitCode := ExitCode_TimerHandler_Consume\<rparr>
         else SendMessageToRTApp r s1)"

definition MsgParseIsReboot :: "string option \<Rightarrow> int \<Rightarrow> bool" where
  "MsgParseIsReboot rxBuf len =
     (case rxBuf of
        None \<Rightarrow> False
      | Some b \<Rightarrow> if len \<le> 0 then False else strncmp b ''reboot!!'' (nat len) = 0)"

definition SocketEventHandler :: "int \<Rightarrow> int \<Rightarrow> string \<Rightarrow> int \<Rightarrow> globals \<Rightarrow> globals" where
  "SocketEventHandler fd bytesReceived rxBuf err s =
     (let s1 = call (Call_recv fd RECV_BUFF_SIZE) s;
          s2 = call (Log_Debug ''SocketEventHandler\<newline>'' []) s1
      in if bytesReceived = - 1
         then (call (Log_Debug ''ERROR: Unable to receive message: %d (%s)\<newline>''
                       [Arg_int err, Arg_strerror err]) s2)
                \<lparr>exitCode := ExitCode_SocketHandler_Recv\<rparr>
         else
           let s3 = call (Log_Debug ''Received %d bytes: '' [Arg_int bytesReceived]) s2;
               s4 = fold (\<lambda>i. call (Log_Debug ''%c''
                            [Arg_char (if isprint (char_at rxBuf i) then char_at rxBuf i
                                       else CHR ''.'')]))
                      [0 ..< nat bytesReceived] s3;
               s5 = call (Log_Debug ''\<newline>'' []) s4
           in if MsgParseIsReboot (Some rxBuf) bytesReceived
              then (call (Log_Debug ''Simulated reboot cmd received\<newline>'' []) s5)
                     \<lparr>exitCode := ExitCode_Main_EventLoopSimReboot\<rparr>
              else s5)"

subsection \<open>Initialisation and shutdown\<close>

definition InitSigterm :: "globals \<Rightarrow> globals" where
  "InitSigterm s = call Call_sigaction_SIGTERM s"

definition InitHandlers :: "cycle_env \<Rightarrow> globals \<Rightarrow> ExitCode \<times> globals" where
  "InitHandlers c s =
     (let s1 = (call Call_EventLoop_Create s)\<lparr>eventLoop := r_EventLoop_Create c\<rparr>
      in if eventLoop s1 = None
         then (ExitCode_Init_EventLoop,
               call (Log_Debug ''Could not create event loop.\<newline>'' []) s1)
         else
           let s2 = (call (Call_CreateEventLoopPeriodicTimer (eventLoop s1) 1 0) s1)
                      \<lparr>sendTimer := r_CreateEventLoopPeriodicTimer c\<rparr>
           in if sendTimer s2 = None then (ExitCode_Init_SendTimer, s2)
              else
                let s3 = (call (Call_Application_Connect rtAppComponentId) s2)
                           \<lparr>sockFd := fst (r_Application_Connect c)\<rparr>
                in if sockFd s3 = - 1
                   then (ExitCode_Init_Connection,
                         call (Log_Debug ''ERROR: Unable to create socket: %d (%s)\<newline>''
                                 [Arg_int (snd (r_Application_Connect c)),
                                  Arg_strerror (snd (r_Application_Connect c))]) s3)
                   else
                     let s4 = call (Call_setsockopt_SO_RCVTIMEO (sockFd s3) 5 0) s3;
                         result = fst (r_setsockopt c)
                     in if result = - 1
                        then (ExitCode_Init_SetSockOpt,
                              call (Log_Debug
                                      ''ERROR: Unable to set socket timeout: %d (%s)\<newline>''
                                      [Arg_int (snd (r_setsockopt c)),
                                       Arg_strerror (snd (r_setsockopt c))]) s4)
                        else
                          let s5 = (call (Call_EventLoop_RegisterIo (eventLoop s4) (sockFd s4)) s4)
                                     \<lparr>socketEventReg := fst (r_EventLoop_RegisterIo c)\<rparr>
                          in if socketEventReg s5 = None
                             then (ExitCode_Init_RegisterIo,
                                   call (Log_Debug
                                           ''ERROR: Unable to register socket event: %d (%s)\<newline>''
                                           [Arg_int (snd (r_EventLoop_RegisterIo c)),
                                            Arg_strerror (snd (r_EventLoop_RegisterIo c))]) s5)
                             else (ExitCode_Success, s5))"

definition CloseFdAndPrintError :: "int \<Rightarrow> string \<Rightarrow> int \<times> int \<Rightarrow> globals \<Rightarrow> globals" where
  "CloseFdAndPrintError fd fdName r s =
     (if 0 \<le> fd
      then let s1 = call (Call_close fd) s; result = fst r
           in if result \<noteq> 0
              then call (Log_Debug ''ERROR: Could not close fd %s: %s (%d).\<newline>''
                           [Arg_str fdName, Arg_strerror (snd r), Arg_int (snd r)]) s1
              else s1
      else s)"

definition CloseHandlers :: "cycle_env \<Rightarrow> globals \<Rightarrow> globals" where
  "CloseHandlers c s =
     (let s1 = call (Call_DisposeEventLoopTimer (sendTimer s)) s;
          s2 = call (Call_EventLoop_UnregisterIo (eventLoop s1) (socketEventReg s1)) s1;
          s3 = call (Call_EventLoop_Close (eventLoop s2)) s2;
          s4 = call (Log_Debug ''Closing file descriptors.\<newline>'' []) s3
      in CloseFdAndPrintError (sockFd s4) ''Socket'' (r_close c) s4)"

subsection \<open>The dispatch loop, RunLoop and main\<close>

text \<open>
  One call of \<open>EventLoop_Run(eventLoop, -1, true)\<close>: the dispatcher is external; while
  the program waits in it, the handlers registered by this file run.  The dispatcher
  hands the timer callback the timer it was created for and the socket callback the
  descriptor that was registered.
\<close>

fun run_event :: "event \<Rightarrow> globals \<Rightarrow> globals" where
  "run_event Sigterm s = TerminationHandler 15 s"
| "run_event (Timer_fires consumed r) s = SendTimerEventHandler (sendTimer s) consumed r s"
| "run_event (Socket_readable n buf err) s = SocketEventHandler (sockFd s) n buf err s"

definition EventLoop_Run :: "run_return \<Rightarrow> globals \<Rightarrow> globals" where
  "EventLoop_Run r s = fold run_event (run_events r) (call (Call_EventLoop_Run (eventLoop s) (- 1) True) s)"

text \<open>The body of the while loop of RunLoop.\<close>

definition RunLoop_body :: "run_return \<Rightarrow> globals \<Rightarrow> globals" where
  "RunLoop_body r s =
     (let s1 = EventLoop_Run r s
      in if run_result r = EventLoop_Run_Failed \<and> run_errno r \<noteq> EINTR
         then s1\<lparr>exitCode := ExitCode_Main_EventLoopFail\<rparr>
         else s1)"

text \<open>
  \<open>while (exitCode == ExitCode_Success) { ... }\<close>.  The result is \<open>None\<close> when the
  loop is still running and no further return of the dispatcher is scripted: the wait
  has no timeout and blocks.
\<close>

fun RunLoop_while :: "run_return list \<Rightarrow> globals \<Rightarrow> globals option" where
  "RunLoop_while [] s = (if exitCode s = ExitCode_Success then None else Some s)"
| "RunLoop_while (r # rs) s =
     (if exitCode s = ExitCode_Success then RunLoop_while rs (RunLoop_body r s) else Some s)"

text \<open>
  The branch of RunLoop taken when the loop has ended on the simulated-reboot status.
  A SIGTERM that arrives during the sleep runs TerminationHandler before nanosleep
  returns.
\<close>

definition simulate_reboot :: "cycle_env \<Rightarrow> globals \<Rightarrow> globals" where
  "simulate_reboot c s =
     (let s1 = call (Log_Debug ''Simulating reboot...\<newline>'' []) s;
          s2 = call (Call_nanosleep 10 0) s1;
          s3 = (if nanosleep_sigterm c then TerminationHandler 15 s2 else s2);
          s4 = (if r_nanosleep c = - 1
                then call (Log_Debug ''WARNING: wait interrupted\<newline>'' []) s3 else s3)
      in call (Log_Debug ''Re-initialising\<newline>'' []) s4)"

definition RunLoop :: "cycle_env \<Rightarrow> globals \<Rightarrow> (ExitCode \<times> globals) option" where
  "RunLoop c s =
     (let s0 = call (Log_Debug ''Running main loop.\<newline>'' []) s;
          s1 = (snd (InitHandlers c s0))\<lparr>exitCode := fst (InitHandlers c s0)\<rparr>
      in case RunLoop_while (runs c) s1 of
           None \<Rightarrow> None
         | Some s2 \<Rightarrow>
             let s3 = CloseHandlers c s2;
                 s4 = (if exitCode s3 = ExitCode_Main_EventLoopSimReboot
                       then simulate_reboot c s3 else s3)
             in Some (exitCode s4, s4))"

text \<open>
  \<open>while ((code = RunLoop()) == ExitCode_Main_EventLoopSimReboot);\<close> over the scripts
  of the successive passes; \<open>None\<close> when a pass does not return or when a further pass is
  due and the script has none.
\<close>

fun main_while :: "cycle_env list \<Rightarrow> globals \<Rightarrow> (ExitCode \<times> globals) option" where
  "main_while [] s = None"
| "main_while (c # cs) s =
     (case RunLoop c s of
        None \<Rightarrow> None
      | Some (code, s') \<Rightarrow>
          if code = ExitCode_Main_EventLoopSimReboot then main_while cs s' else Some (code, s'))"

definition main :: "cycle_env list \<Rightarrow> globals \<Rightarrow> (int \<times> globals) option" where
  "main cs s =
     (let s1 = call (Log_Debug ''High-level intercore comms application\<newline>'' []) s;
          s2 = call (Log_Debug
                 ''Sends data to, and receives data from a real-time capable application.\<newline>''
                 []) s1;
          s3 = InitSigterm s2
      in case main_while cs s3 of
           None \<Rightarrow> None
         | Some (code, s4) \<Rightarrow>
             let s5 = call (Log_Debug ''Application exiting.\<newline>'' []) s4
             in Some (ExitCode_value (exitCode s5), s5))"

subsection \<open>Reading a trace, and example scripts\<close>

text \<open>The calls of the shutdown step: they release a resource or close a descriptor.\<close>

fun is_release :: "action \<Rightarrow> bool" where
  "is_release (Call_DisposeEventLoopTimer t) = True"
| "is_release (Call_EventLoop_UnregisterIo el reg) = True"
| "is_release (Call_EventLoop_Close el) = True"
| "is_release (Call_close fd) = True"
| "is_release a = False"

text \<open>The payloads handed to send, oldest first.\<close>

fun sent_messages :: "action list \<Rightarrow> string list" where
  "sent_messages [] = []"
| "sent_messages (Call_send fd m n # tr) = m # sent_messages tr"
| "sent_messages (a # tr) = sent_messages tr"

text \<open>A pass in which every step of the initialisation succeeds, with the given returns
  of the dispatcher.\<close>

definition example_cycle :: "run_return list \<Rightarrow> cycle_env" where
  "example_cycle rs =
     \<lparr>r_EventLoop_Create = Some 1, r_CreateEventLoopPeriodicTimer = Some 2,
      r_Application_Connect = (3, 0), r_setsockopt = (0, 0),
      r_EventLoop_RegisterIo = (Some 4, 0), runs = rs, r_close = (0, 0),
      nanosleep_sigterm = False, r_nanosleep = 0\<rparr>"

text \<open>The dispatcher returns after running callbacks, or fails as an interrupted wait.\<close>

definition dispatched :: "event list \<Rightarrow> run_return" where
  "dispatched es = \<lparr>run_events = es, run_result = EventLoop_Run_FinishedEmpty, run_errno = 0\<rparr>"

definition interrupted :: "event list \<Rightarrow> run_return" where
  "interrupted es = \<lparr>run_events = es, run_result = EventLoop_Run_Failed, run_errno = EINTR\<rparr>"

text \<open>A pass in which Application_Connect fails (errno 13).\<close>

definition connect_fails_cycle :: cycle_env where
  "connect_fails_cycle = (example_cycle [])\<lparr>r_Application_Connect := (- 1, 13)\<rparr>"




subsection \<open>Notions used in the statements\<close>








section \<open>Basic facts\<close>

lemma call_fields [simp]:
  "sockFd (call a s) = sockFd s"
  "eventLoop (call a s) = eventLoop s"
  "sendTimer (call a s) = sendTimer s"
  "socketEventReg (call a s) = socketEventReg s"
  "exitCode (call a s) = exitCode s"
  "iter (call a s) = iter s"
  "trace (call a s) = trace s @ [a]"
  by (simp_all add: call_def)

lemma fold_call: "fold (\<lambda>i. call (f i)) xs s = s\<lparr>trace := trace s @ map f xs\<rparr>"
  by (induction xs arbitrary: s) (simp_all add: call_def)

lemma MsgParseIsReboot_zero: "\<not> MsgParseIsReboot b 0"
  by (simp add: MsgParseIsReboot_def split: option.split)

lemma RunLoop_while_stopped:
  "exitCode s \<noteq> ExitCode_Success \<Longrightarrow> RunLoop_while rs s = Some s"
  by (cases rs) simp_all

lemma TerminationHandler_fields [simp]:
  "sockFd (TerminationHandler n s) = sockFd s"
  "eventLoop (TerminationHandler n s) = eventLoop s"
  "sendTimer (TerminationHandler n s) = sendTimer s"
  "socketEventReg (TerminationHandler n s) = socketEventReg s"
  "exitCode (TerminationHandler n s) = ExitCode_TermHandler_SigTerm"
  "iter (TerminationHandler n s) = iter s"
  "trace (TerminationHandler n s) = trace s"
  by (simp_all add: TerminationHandler_def)

lemma run_event_handles [simp]:
  "sockFd (run_event e s) = sockFd s"
  "eventLoop (run_event e s) = eventLoop s"
  "sendTimer (run_event e s) = sendTimer s"
  "socketEventReg (run_event e s) = socketEventReg s"
  by (cases e; simp add: SendTimerEventHandler_def SendMessageToRTApp_def SocketEventHandler_def
        Let_def fold_call)+

lemma run_event_not_fail:
  "exitCode s \<noteq> ExitCode_Main_EventLoopFail \<Longrightarrow>
   exitCode (run_event e s) \<noteq> ExitCode_Main_EventLoopFail"
  by (cases e) (simp_all add: SendTimerEventHandler_def SendMessageToRTApp_def
        SocketEventHandler_def Let_def fold_call)

lemma fold_run_event_not_fail:
  "exitCode s \<noteq> ExitCode_Main_EventLoopFail \<Longrightarrow>
   exitCode (fold run_event es s) \<noteq> ExitCode_Main_EventLoopFail"
  by (induction es arbitrary: s) (simp_all add: run_event_not_fail)

lemma EventLoop_Run_not_fail:
  "exitCode s \<noteq> ExitCode_Main_EventLoopFail \<Longrightarrow>
   exitCode (EventLoop_Run r s) \<noteq> ExitCode_Main_EventLoopFail"
  by (simp add: EventLoop_Run_def fold_run_event_not_fail)

subsection \<open>What MsgParseIsReboot computes on payloads of at most eight bytes\<close>

text \<open>
  For a payload of 1 to 8 bytes the function compares the payload with the sentinel's
  first bytes of the same number, nothing more.
\<close>

lemma sentinel_no_NUL: "i < 8 \<Longrightarrow> char_at ''reboot!!'' i \<noteq> CHR 0x00"
proof -
  assume "i < 8"
  then have "i \<in> {0, 1, 2, 3, 4, 5, 6, 7}" by auto
  then show ?thesis by (auto simp add: char_at_def)
qed

lemma of_char_diff: "c1 \<noteq> c2 \<Longrightarrow> int (of_char c1) - int (of_char c2) \<noteq> 0"
  by simp

lemma strncmp_from_sentinel:
  "i + n \<le> 8 \<Longrightarrow>
   (strncmp_from b ''reboot!!'' i n = 0) =
   (\<forall>k < n. char_at b (i + k) = char_at ''reboot!!'' (i + k))"
proof (induction n arbitrary: i)
  case 0
  then show ?case by simp
next
  case (Suc n)
  from Suc.prems have i: "i < 8" and rest: "Suc i + n \<le> 8" by simp_all
  show ?case
  proof (cases "char_at b i = char_at ''reboot!!'' i")
    case True
    with sentinel_no_NUL [OF i] have nz: "char_at b i \<noteq> CHR 0x00" by simp
    have "(\<forall>k < Suc n. char_at b (i + k) = char_at ''reboot!!'' (i + k))
        = (\<forall>k < n. char_at b (Suc i + k) = char_at ''reboot!!'' (Suc i + k))"
      using True by (auto simp add: less_Suc_eq_0_disj)
    with True nz Suc.IH [OF rest] show ?thesis
      by (simp add: Let_def)
  next
    case False
    then have "\<not> (\<forall>k < Suc n. char_at b (i + k) = char_at ''reboot!!'' (i + k))"
      by (auto intro: exI [where x = 0])
    with False show ?thesis
      by (simp add: Let_def)
  qed
qed

lemma MsgParseIsReboot_short:
  assumes "0 < len" and "len \<le> 8" and "nat len \<le> length b"
  shows "MsgParseIsReboot (Some b) len = (take (nat len) b = take (nat len) ''reboot!!'')"
proof -
  have "(take (nat len) b = take (nat len) ''reboot!!'')
      = (\<forall>k < nat len. char_at b k = char_at ''reboot!!'' k)"
    using assms by (auto simp add: list_eq_iff_nth_eq char_at_def)
  moreover have "MsgParseIsReboot (Some b) len
      = (\<forall>k < nat len. char_at b (0 + k) = char_at ''reboot!!'' (0 + k))"
    using assms strncmp_from_sentinel [of 0 "nat len" b]
    by (simp add: MsgParseIsReboot_def strncmp_def)
  ultimately show ?thesis by simp
qed

subsection \<open>The outbound message\<close>

lemma dec_nat_small: "n < 10 \<Longrightarrow> dec_nat n = [digit_char n]"
  by (simp add: dec_nat.simps)

lemma dec_nat_two:
  "10 \<le> n \<Longrightarrow> n < 100 \<Longrightarrow> dec_nat n = [digit_char (n div 10), digit_char (n mod 10)]"
  by (subst dec_nat.simps) (simp add: dec_nat_small)

lemma zero_char: "CHR ''0'' = char_of (48::nat)"
  by code_simp

lemma printf_02d_range:
  "0 \<le> n \<Longrightarrow> n < 100 \<Longrightarrow>
   printf_02d n = [char_of (48 + nat n div 10), char_of (48 + nat n mod 10)]"
proof (cases "nat n < 10")
  case True
  assume "0 \<le> n" "n < 100"
  with True show ?thesis
    by (simp add: printf_02d_def dec_nat_small digit_char_def zero_char)
next
  case False
  assume "0 \<le> n" "n < 100"
  with False show ?thesis
    by (simp add: printf_02d_def dec_nat_two digit_char_def)
qed

lemma snprintf_txMessage_range:
  "0 \<le> n \<Longrightarrow> n < 100 \<Longrightarrow>
   snprintf_txMessage n =
     ''hl-app-to-rt-app-adding'' @ [char_of (48 + nat n div 10), char_of (48 + nat n mod 10)]"
  by (simp add: snprintf_txMessage_def printf_02d_range)

lemma iter_step: "0 \<le> iter s \<Longrightarrow> iter (SendMessageToRTApp r s) = (iter s + 1) mod 100"
  by (simp add: SendMessageToRTApp_def Let_def smod_mod_positive)

lemma iter_fold:
  "0 \<le> iter s \<Longrightarrow> iter s < 100 \<Longrightarrow>
   iter (fold SendMessageToRTApp rs s) = (iter s + int (length rs)) mod 100"
proof (induction rs arbitrary: s)
  case Nil
  then show ?case by simp
next
  case (Cons r rs)
  have "0 \<le> iter (SendMessageToRTApp r s)" "iter (SendMessageToRTApp r s) < 100"
    using Cons.prems by (simp_all add: iter_step)
  from Cons.IH[OF this] show ?case using Cons.prems
    by (simp add: iter_step mod_add_left_eq add.assoc)
qed

lemma SendMessageToRTApp_trace:
  "trace (SendMessageToRTApp r s) =
     trace s @ [Log_Debug ''Sending: %s\<newline>'' [Arg_str (snprintf_txMessage (iter s))],
                Call_send (sockFd s) (snprintf_txMessage (iter s))
                  (length (snprintf_txMessage (iter s)))]
       @ (if fst r = - 1
          then [Log_Debug ''ERROR: Unable to send message: %d (%s)\<newline>''
                  [Arg_int (snd r), Arg_strerror (snd r)]]
          else [])"
  by (simp add: SendMessageToRTApp_def Let_def)

lemma SendMessageToRTApp_exitCode:
  "exitCode (SendMessageToRTApp r s) =
     (if fst r = - 1 then ExitCode_SendMsg_Send else exitCode s)"
  by (simp add: SendMessageToRTApp_def Let_def)

subsection \<open>Initialisation, shutdown and whole passes\<close>

lemma InitHandlers_succeeds:
  assumes "r_EventLoop_Create c = Some el"
    and "r_CreateEventLoopPeriodicTimer c = Some t"
    and "fst (r_Application_Connect c) = fd" and "fd \<noteq> - 1"
    and "fst (r_setsockopt c) \<noteq> - 1"
    and "fst (r_EventLoop_RegisterIo c) = Some reg"
  shows "InitHandlers c s =
           (ExitCode_Success,
            s\<lparr>sockFd := fd, eventLoop := Some el, sendTimer := Some t,
              socketEventReg := Some reg,
              trace := trace s @
                [Call_EventLoop_Create,
                 Call_CreateEventLoopPeriodicTimer (Some el) 1 0,
                 Call_Application_Connect rtAppComponentId,
                 Call_setsockopt_SO_RCVTIMEO fd 5 0,
                 Call_EventLoop_RegisterIo (Some el) fd]\<rparr>)"
  using assms by (simp add: InitHandlers_def Let_def call_def)

lemma InitHandlers_connect_fails:
  assumes "r_EventLoop_Create c = Some el"
    and "r_CreateEventLoopPeriodicTimer c = Some t"
    and "fst (r_Application_Connect c) = - 1"
  shows "InitHandlers c s =
           (ExitCode_Init_Connection,
            s\<lparr>sockFd := - 1, eventLoop := Some el, sendTimer := Some t,
              trace := trace s @
                [Call_EventLoop_Create,
                 Call_CreateEventLoopPeriodicTimer (Some el) 1 0,
                 Call_Application_Connect rtAppComponentId,
                 Log_Debug ''ERROR: Unable to create socket: %d (%s)\<newline>''
                   [Arg_int (snd (r_Application_Connect c)),
                    Arg_strerror (snd (r_Application_Connect c))]]\<rparr>)"
  using assms by (simp add: InitHandlers_def Let_def call_def)

lemma CloseHandlers_eq:
  "CloseHandlers c s =
     s\<lparr>trace := trace s @
         [Call_DisposeEventLoopTimer (sendTimer s),
          Call_EventLoop_UnregisterIo (eventLoop s) (socketEventReg s),
          Call_EventLoop_Close (eventLoop s),
          Log_Debug ''Closing file descriptors.\<newline>'' []]
         @ (if 0 \<le> sockFd s
            then Call_close (sockFd s)
                 # (if fst (r_close c) \<noteq> 0
                    then [Log_Debug ''ERROR: Could not close fd %s: %s (%d).\<newline>''
                            [Arg_str ''Socket'', Arg_strerror (snd (r_close c)),
                             Arg_int (snd (r_close c))]]
                    else [])
            else [])\<rparr>"
  by (simp add: CloseHandlers_def CloseFdAndPrintError_def Let_def call_def)

lemma RunLoop_connect_fails:
  assumes "r_EventLoop_Create c = Some el"
    and "r_CreateEventLoopPeriodicTimer c = Some t"
    and "fst (r_Application_Connect c) = - 1"
  shows "RunLoop c s =
           Some (ExitCode_Init_Connection,
                 s\<lparr>sockFd := - 1, eventLoop := Some el, sendTimer := Some t,
                   exitCode := ExitCode_Init_Connection,
                   trace := trace s @
                     [Log_Debug ''Running main loop.\<newline>'' [],
                      Call_EventLoop_Create,
                      Call_CreateEventLoopPeriodicTimer (Some el) 1 0,
                      Call_Application_Connect rtAppComponentId,
                      Log_Debug ''ERROR: Unable to create socket: %d (%s)\<newline>''
                        [Arg_int (snd (r_Application_Connect c)),
                         Arg_strerror (snd (r_Application_Connect c))],
                      Call_DisposeEventLoopTimer (Some t),
                      Call_EventLoop_UnregisterIo (Some el) (socketEventReg s),
                      Call_EventLoop_Close (Some el),
                      Log_Debug ''Closing file descriptors.\<newline>'' []]\<rparr>)"
  by (simp add: RunLoop_def InitHandlers_connect_fails [OF assms] RunLoop_while_stopped
      CloseHandlers_eq Let_def)

lemma RunLoop_sigterm:
  assumes "r_EventLoop_Create c = Some el"
    and "r_CreateEventLoopPeriodicTimer c = Some t"
    and "fst (r_Application_Connect c) = fd" and "0 \<le> fd"
    and "fst (r_setsockopt c) \<noteq> - 1"
    and "fst (r_EventLoop_RegisterIo c) = Some reg"
    and "runs c = r # rs" and "run_events r = [Sigterm]"
    and "run_result r \<noteq> EventLoop_Run_Failed \<or> run_errno r = EINTR"
  shows "RunLoop c s =
           Some (ExitCode_TermHandler_SigTerm,
                 s\<lparr>sockFd := fd, eventLoop := Some el, sendTimer := Some t,
                      socketEventReg := Some reg, exitCode := ExitCode_TermHandler_SigTerm,
                      trace := trace s @
                        [Log_Debug ''Running main loop.\<newline>'' [],
                         Call_EventLoop_Create,
                         Call_CreateEventLoopPeriodicTimer (Some el) 1 0,
                         Call_Application_Connect rtAppComponentId,
                         Call_setsockopt_SO_RCVTIMEO fd 5 0,
                         Call_EventLoop_RegisterIo (Some el) fd,
                         Call_EventLoop_Run (Some el) (- 1) True,
                         Call_DisposeEventLoopTimer (Some t),
                         Call_EventLoop_UnregisterIo (Some el) (Some reg),
                         Call_EventLoop_Close (Some el),
                         Log_Debug ''Closing file descriptors.\<newline>'' [],
                         Call_close fd]
                        @ (if fst (r_close c) \<noteq> 0
                           then [Log_Debug ''ERROR: Could not close fd %s: %s (%d).\<newline>''
                                   [Arg_str ''Socket'', Arg_strerror (snd (r_close c)),
                                    Arg_int (snd (r_close c))]]
                           else [])\<rparr>)"
proof -
  have nm: "fd \<noteq> - 1" using assms(4) by simp
  have body: "RunLoop_body r s0 =
      s0\<lparr>exitCode := ExitCode_TermHandler_SigTerm,
         trace := trace s0 @ [Call_EventLoop_Run (eventLoop s0) (- 1) True]\<rparr>" for s0
    using assms(8,9)
    by (auto simp add: RunLoop_body_def EventLoop_Run_def TerminationHandler_def call_def)
  show ?thesis
    using assms(4)
    by (simp add: RunLoop_def InitHandlers_succeeds [OF assms(1,2,3) nm assms(5,6)]
        assms(7) body RunLoop_while_stopped CloseHandlers_eq Let_def)
qed

subsection \<open>The shutdown calls occur in CloseHandlers only\<close>












lemma RunLoop_body_handles [simp]:
  "sockFd (RunLoop_body r s) = sockFd s"
  "eventLoop (RunLoop_body r s) = eventLoop s"
  "sendTimer (RunLoop_body r s) = sendTimer s"
  "socketEventReg (RunLoop_body r s) = socketEventReg s"
proof -
  have "sockFd (fold run_event es s0) = sockFd s0 \<and> eventLoop (fold run_event es s0) = eventLoop s0
      \<and> sendTimer (fold run_event es s0) = sendTimer s0
      \<and> socketEventReg (fold run_event es s0) = socketEventReg s0" for es s0
    by (induction es arbitrary: s0) simp_all
  then show "sockFd (RunLoop_body r s) = sockFd s"
    "eventLoop (RunLoop_body r s) = eventLoop s"
    "sendTimer (RunLoop_body r s) = sendTimer s"
    "socketEventReg (RunLoop_body r s) = socketEventReg s"
    by (simp_all add: RunLoop_body_def EventLoop_Run_def Let_def)
qed



subsection \<open>The shape of RunLoop\<close>









subsection \<open>The counter across dispatches and passes\<close>
















subsection \<open>The loop by its states, a matching receive, and main over its loop\<close>





















section \<open>The claims\<close>

text \<open>
  Claim C1 says that MsgParseIsReboot accepts exactly the eight bytes \<open>reboot!!\<close>.  The
  function bounds strncmp by the number of bytes received and never compares that number
  with 8, so a shorter payload that is a prefix of the sentinel compares equal (lemma
  \<open>MsgParseIsReboot_short\<close>): the three bytes \<open>reb\<close>, whatever follows them in the
  buffer, are classified as the reboot command.
\<close>

theorem MsgParseIsReboot_accepts_prefix:
  "MsgParseIsReboot (Some (''reb'' @ rest)) 3"
  by (simp add: MsgParseIsReboot_def strncmp_def char_at_def numeral_3_eq_3)






text \<open>
  Claim C4: a dispatcher failure with errno EINTR leaves the run status as the wait
  returned it (never the dispatch-failure value), and when that status is still
  ExitCode_Success the loop goes on to the next wait; any other dispatcher failure sets
  the status to ExitCode_Main_EventLoopFail and the loop returns.
\<close>

theorem interrupted_wait:
  assumes "exitCode s = ExitCode_Success" and "run_result r = EventLoop_Run_Failed"
  shows "exitCode (RunLoop_body r s) =
           (if run_errno r = EINTR then exitCode (EventLoop_Run r s)
            else ExitCode_Main_EventLoopFail)
       \<and> exitCode (EventLoop_Run r s) \<noteq> ExitCode_Main_EventLoopFail
       \<and> RunLoop_while (r # rs) s =
           (if run_errno r = EINTR \<and> exitCode (EventLoop_Run r s) = ExitCode_Success
            then (case rs of [] \<Rightarrow> None
                  | r' # rs' \<Rightarrow> RunLoop_while rs' (RunLoop_body r' (RunLoop_body r s)))
            else Some (RunLoop_body r s))"
proof -
  have nf: "exitCode (EventLoop_Run r s) \<noteq> ExitCode_Main_EventLoopFail"
    using assms(1) by (simp add: EventLoop_Run_not_fail)
  show ?thesis
    using assms nf by (simp add: RunLoop_body_def RunLoop_while_stopped split: list.split)
qed

theorem interrupted_wait_witness:
  "exitCode initial_globals = ExitCode_Success
   \<and> run_result (interrupted []) = EventLoop_Run_Failed
   \<and> run_result ((interrupted [])\<lparr>run_errno := 5\<rparr>) = EventLoop_Run_Failed
   \<and> exitCode (RunLoop_body (interrupted []) initial_globals) = ExitCode_Success
   \<and> RunLoop_while [interrupted []] initial_globals = None
   \<and> exitCode (RunLoop_body ((interrupted [])\<lparr>run_errno := 5\<rparr>) initial_globals)
       = ExitCode_Main_EventLoopFail
   \<and> RunLoop_while [(interrupted [])\<lparr>run_errno := 5\<rparr>, interrupted []] initial_globals
       = Some (RunLoop_body ((interrupted [])\<lparr>run_errno := 5\<rparr>) initial_globals)"
  using interrupted_wait [of initial_globals "interrupted []" "[]"]
    interrupted_wait [of initial_globals "(interrupted [])\<lparr>run_errno := 5\<rparr>" "[interrupted []]"]
  by (simp add: initial_globals_def interrupted_def EINTR_def EventLoop_Run_def)

text \<open>
  Claim C8: every call of SendMessageToRTApp logs and sends the message formatted from
  the counter, once, and leaves the counter advanced modulo 100; when send returns -1
  the status becomes ExitCode_SendMsg_Send, there is no second send, and a dispatch loop
  whose timer callback made that call returns without another wait.
\<close>

theorem send_message:
  assumes "0 \<le> iter s" and "iter s < 100"
  shows "trace (SendMessageToRTApp r s) =
           trace s @ [Log_Debug ''Sending: %s\<newline>'' [Arg_str (snprintf_txMessage (iter s))],
                      Call_send (sockFd s) (snprintf_txMessage (iter s))
                        (length (snprintf_txMessage (iter s)))]
             @ (if fst r = - 1
                then [Log_Debug ''ERROR: Unable to send message: %d (%s)\<newline>''
                        [Arg_int (snd r), Arg_strerror (snd r)]]
                else [])
       \<and> iter (SendMessageToRTApp r s) = (iter s + 1) mod 100
       \<and> exitCode (SendMessageToRTApp r s) =
           (if fst r = - 1 then ExitCode_SendMsg_Send else exitCode s)
       \<and> (fst r = - 1 \<and> exitCode s = ExitCode_Success \<and> run_events rr = [Timer_fires 0 r]
            \<longrightarrow> exitCode (RunLoop_body rr s) \<noteq> ExitCode_Success
              \<and> RunLoop_while (rr # rs) s = Some (RunLoop_body rr s))"
  using assms
  by (simp add: SendMessageToRTApp_trace SendMessageToRTApp_exitCode iter_step
      RunLoop_body_def EventLoop_Run_def SendTimerEventHandler_def RunLoop_while_stopped
      Let_def)

theorem send_message_witness:
  "0 \<le> iter initial_globals \<and> iter initial_globals < 100
   \<and> fst (- 1 :: int, 11 :: int) = - 1 \<and> exitCode initial_globals = ExitCode_Success
   \<and> run_events (dispatched [Timer_fires 0 (- 1, 11)]) = [Timer_fires 0 (- 1, 11)]
   \<and> iter (SendMessageToRTApp (- 1, 11) initial_globals) = 1
   \<and> exitCode (SendMessageToRTApp (- 1, 11) initial_globals) = ExitCode_SendMsg_Send
   \<and> RunLoop_while [dispatched [Timer_fires 0 (- 1, 11)], dispatched []] initial_globals
       = Some (RunLoop_body (dispatched [Timer_fires 0 (- 1, 11)]) initial_globals)"
  using send_message [of initial_globals "(- 1, 11)" "dispatched [Timer_fires 0 (- 1, 11)]"
      "[dispatched []]"]
  by (simp add: initial_globals_def dispatched_def)

text \<open>
  Claim C9: for a counter value n from 0 to 99 the message is the prefix
  \<open>hl-app-to-rt-app-adding\<close> followed by the tens digit and the units digit of n; that
  message is what send receives; each call advances the counter by one modulo 100, so
  100 calls bring it back to where it was (to 0 when it started at 0).
\<close>

theorem outbound_message:
  assumes "0 \<le> iter s" and "iter s < 100" and "length rs = 100"
  shows "snprintf_txMessage (iter s) =
           ''hl-app-to-rt-app-adding''
             @ [char_of (48 + nat (iter s) div 10), char_of (48 + nat (iter s) mod 10)]
       \<and> sent_messages (trace (SendMessageToRTApp r s)) =
           sent_messages (trace s) @ [snprintf_txMessage (iter s)]
       \<and> iter (SendMessageToRTApp r s) = (iter s + 1) mod 100
       \<and> iter (fold SendMessageToRTApp rs s) = iter s"
proof -
  have sm: "sent_messages (xs @ ys) = sent_messages xs @ sent_messages ys" for xs ys
    by (induction xs rule: sent_messages.induct) simp_all
  have fmt: "snprintf_txMessage (iter s) =
           ''hl-app-to-rt-app-adding''
             @ [char_of (48 + nat (iter s) div 10), char_of (48 + nat (iter s) mod 10)]"
    using assms(1,2) by (rule snprintf_txMessage_range)
  have sent: "sent_messages (trace (SendMessageToRTApp r s)) =
           sent_messages (trace s) @ [snprintf_txMessage (iter s)]"
    by (simp add: SendMessageToRTApp_trace sm)
  have wrap: "iter (fold SendMessageToRTApp rs s) = iter s"
    using assms by (simp add: iter_fold)
  from fmt sent wrap assms(1) show ?thesis
    by (simp only: iter_step simp_thms)
qed

theorem outbound_message_witness:
  "0 \<le> iter initial_globals \<and> iter initial_globals < 100
   \<and> length (replicate 100 (25 :: int, 0 :: int)) = 100
   \<and> snprintf_txMessage (iter initial_globals) = ''hl-app-to-rt-app-adding00''
   \<and> iter (SendMessageToRTApp (25, 0) initial_globals) = 1
   \<and> iter (fold SendMessageToRTApp (replicate 100 (25, 0)) initial_globals) = 0"
proof -
  have z: "char_of (48::nat) = CHR ''0''"
    by (simp add: zero_char)
  show ?thesis
    using outbound_message [of initial_globals "replicate 100 (25, 0)" "(25, 0)"]
    by (simp add: initial_globals_def z)
qed

text \<open>
  Claim C10: when recv returns 0 the handler logs the count 0 and nothing of the
  buffer, MsgParseIsReboot rejects the empty payload, the run status is the one before
  the call, and a dispatch loop that was running goes on to its next wait.
\<close>

theorem zero_byte_read:
  assumes "exitCode s = ExitCode_Success"
    and "run_events r = [Socket_readable 0 buf err]"
    and "run_result r \<noteq> EventLoop_Run_Failed \<or> run_errno r = EINTR"
  shows "trace (SocketEventHandler fd 0 buf err s) =
           trace s @ [Call_recv fd RECV_BUFF_SIZE, Log_Debug ''SocketEventHandler\<newline>'' [],
                      Log_Debug ''Received %d bytes: '' [Arg_int 0], Log_Debug ''\<newline>'' []]
       \<and> \<not> MsgParseIsReboot (Some buf) 0
       \<and> exitCode (SocketEventHandler fd 0 buf err s) = exitCode s
       \<and> exitCode (RunLoop_body r s) = ExitCode_Success
       \<and> RunLoop_while (r # rs) s = RunLoop_while rs (RunLoop_body r s)"
  using assms
  by (auto simp add: SocketEventHandler_def MsgParseIsReboot_zero RunLoop_body_def
      EventLoop_Run_def Let_def)

theorem zero_byte_read_witness:
  "exitCode initial_globals = ExitCode_Success
   \<and> run_events (dispatched [Socket_readable 0 [] 0]) = [Socket_readable 0 [] 0]
   \<and> run_result (dispatched [Socket_readable 0 [] 0]) = EventLoop_Run_FinishedEmpty
   \<and> exitCode (RunLoop_body (dispatched [Socket_readable 0 [] 0]) initial_globals)
       = ExitCode_Success
   \<and> RunLoop_while [dispatched [Socket_readable 0 [] 0]] initial_globals = None"
  using zero_byte_read [of initial_globals "dispatched [Socket_readable 0 [] 0]" "[]" 0 "- 1" "[]"]
  by (simp add: initial_globals_def dispatched_def)



text \<open>
  Claim C6 says that after a failed connect no cleanup is attempted for the registrations
  that were never created.  CloseHandlers is unconditional: in the first pass of a
  process it calls EventLoop_UnregisterIo with the NULL registration.
\<close>

theorem connect_failure_counterexample:
  "fst (the (main [connect_fails_cycle] initial_globals)) = 7
   \<and> socketEventReg initial_globals = None
   \<and> Call_EventLoop_UnregisterIo (Some 1) None
       \<in> set (trace (snd (the (main [connect_fails_cycle] initial_globals))))"
proof -
  have "RunLoop connect_fails_cycle s =
          Some (ExitCode_Init_Connection,
                 s\<lparr>sockFd := - 1, eventLoop := Some 1, sendTimer := Some 2,
                   exitCode := ExitCode_Init_Connection,
                   trace := trace s @
                     [Log_Debug ''Running main loop.\<newline>'' [],
                      Call_EventLoop_Create,
                      Call_CreateEventLoopPeriodicTimer (Some 1) 1 0,
                      Call_Application_Connect rtAppComponentId,
                      Log_Debug ''ERROR: Unable to create socket: %d (%s)\<newline>''
                        [Arg_int 13, Arg_strerror 13],
                      Call_DisposeEventLoopTimer (Some 2),
                      Call_EventLoop_UnregisterIo (Some 1) (socketEventReg s),
                      Call_EventLoop_Close (Some 1),
                      Log_Debug ''Closing file descriptors.\<newline>'' []]\<rparr>)" for s
    using RunLoop_connect_fails [of connect_fails_cycle 1 2 s]
    by (simp add: connect_fails_cycle_def example_cycle_def)
  then show ?thesis
    by (simp add: main_def InitSigterm_def Let_def initial_globals_def)
qed

text \<open>
  Claim C6 as amended: when Application_Connect fails, neither setsockopt nor
  EventLoop_RegisterIo is called; the shutdown step runs once, disposing the timer that
  was created, calling EventLoop_UnregisterIo with the registration pointer as it stands
  and EventLoop_Close with the dispatcher, and skipping only the close of the descriptor
  (it is -1); the process exits with status 7 and RunLoop is not entered again.
\<close>

theorem connect_failure:
  assumes "r_EventLoop_Create c = Some el"
    and "r_CreateEventLoopPeriodicTimer c = Some t"
    and "fst (r_Application_Connect c) = - 1"
  shows "main (c # cs) s =
           Some (7, s\<lparr>sockFd := - 1, eventLoop := Some el, sendTimer := Some t,
                      exitCode := ExitCode_Init_Connection,
                      trace := trace s @
                        [Log_Debug ''High-level intercore comms application\<newline>'' [],
                         Log_Debug ''Sends data to, and receives data from a real-time capable application.\<newline>'' [],
                         Call_sigaction_SIGTERM,
                         Log_Debug ''Running main loop.\<newline>'' [],
                         Call_EventLoop_Create,
                         Call_CreateEventLoopPeriodicTimer (Some el) 1 0,
                         Call_Application_Connect rtAppComponentId,
                         Log_Debug ''ERROR: Unable to create socket: %d (%s)\<newline>''
                           [Arg_int (snd (r_Application_Connect c)),
                            Arg_strerror (snd (r_Application_Connect c))],
                         Call_DisposeEventLoopTimer (Some t),
                         Call_EventLoop_UnregisterIo (Some el) (socketEventReg s),
                         Call_EventLoop_Close (Some el),
                         Log_Debug ''Closing file descriptors.\<newline>'' [],
                         Log_Debug ''Application exiting.\<newline>'' []]\<rparr>)"
  by (simp add: main_def InitSigterm_def RunLoop_connect_fails [OF assms] Let_def)

theorem connect_failure_witness:
  "r_EventLoop_Create connect_fails_cycle = Some 1
   \<and> r_CreateEventLoopPeriodicTimer connect_fails_cycle = Some 2
   \<and> fst (r_Application_Connect connect_fails_cycle) = - 1
   \<and> map_option fst (main [connect_fails_cycle] initial_globals) = Some 7"
  using connect_failure [of connect_fails_cycle 1 2 "[]" initial_globals]
  by (simp add: connect_fails_cycle_def example_cycle_def)

text \<open>
  Claim C7: TerminationHandler writes ExitCode_TermHandler_SigTerm into exitCode and does
  nothing else (no call, no other variable).  When the initialisation has succeeded and
  SIGTERM arrives in the first wait, before any callback, the process runs the shutdown
  step once and exits with status 1; RunLoop is not entered again.
\<close>

theorem termination_request:
  assumes "r_EventLoop_Create c = Some el"
    and "r_CreateEventLoopPeriodicTimer c = Some t"
    and "fst (r_Application_Connect c) = fd" and "0 \<le> fd"
    and "fst (r_setsockopt c) \<noteq> - 1"
    and "fst (r_EventLoop_RegisterIo c) = Some reg"
    and "runs c = r # rs" and "run_events r = [Sigterm]"
    and "run_result r \<noteq> EventLoop_Run_Failed \<or> run_errno r = EINTR"
  shows "TerminationHandler n s = s\<lparr>exitCode := ExitCode_TermHandler_SigTerm\<rparr>
       \<and> trace (TerminationHandler n s) = trace s
       \<and> main (c # cs) s =
           Some (1, s\<lparr>sockFd := fd, eventLoop := Some el, sendTimer := Some t,
                      socketEventReg := Some reg, exitCode := ExitCode_TermHandler_SigTerm,
                      trace := trace s @
                        [Log_Debug ''High-level intercore comms application\<newline>'' [],
                         Log_Debug ''Sends data to, and receives data from a real-time capable application.\<newline>'' [],
                         Call_sigaction_SIGTERM,
                         Log_Debug ''Running main loop.\<newline>'' [],
                         Call_EventLoop_Create,
                         Call_CreateEventLoopPeriodicTimer (Some el) 1 0,
                         Call_Application_Connect rtAppComponentId,
                         Call_setsockopt_SO_RCVTIMEO fd 5 0,
                         Call_EventLoop_RegisterIo (Some el) fd,
                         Call_EventLoop_Run (Some el) (- 1) True,
                         Call_DisposeEventLoopTimer (Some t),
                         Call_EventLoop_UnregisterIo (Some el) (Some reg),
                         Call_EventLoop_Close (Some el),
                         Log_Debug ''Closing file descriptors.\<newline>'' [],
                         Call_close fd]
                        @ (if fst (r_close c) \<noteq> 0
                           then [Log_Debug ''ERROR: Could not close fd %s: %s (%d).\<newline>''
                                   [Arg_str ''Socket'', Arg_strerror (snd (r_close c)),
                                    Arg_int (snd (r_close c))]]
                           else [])
                        @ [Log_Debug ''Application exiting.\<newline>'' []]\<rparr>)"
  by (simp add: TerminationHandler_def main_def InitSigterm_def RunLoop_sigterm [OF assms] Let_def)

theorem termination_request_witness:
  "r_EventLoop_Create (example_cycle [interrupted [Sigterm]]) = Some 1
   \<and> r_CreateEventLoopPeriodicTimer (example_cycle [interrupted [Sigterm]]) = Some 2
   \<and> fst (r_Application_Connect (example_cycle [interrupted [Sigterm]])) = 3
   \<and> fst (r_setsockopt (example_cycle [interrupted [Sigterm]])) = 0
   \<and> fst (r_EventLoop_RegisterIo (example_cycle [interrupted [Sigterm]])) = Some 4
   \<and> runs (example_cycle [interrupted [Sigterm]]) = [interrupted [Sigterm]]
   \<and> run_events (interrupted [Sigterm]) = [Sigterm]
   \<and> run_errno (interrupted [Sigterm]) = EINTR
   \<and> map_option fst (main [example_cycle [interrupted [Sigterm]]] initial_globals) = Some 1
   \<and> map_option (filter is_release \<circ> trace \<circ> snd)
         (main [example_cycle [interrupted [Sigterm]]] initial_globals)
       = Some [Call_DisposeEventLoopTimer (Some 2), Call_EventLoop_UnregisterIo (Some 1) (Some 4),
               Call_EventLoop_Close (Some 1), Call_close 3]"
  using termination_request [of "example_cycle [interrupted [Sigterm]]" 1 2 3 4
      "interrupted [Sigterm]" "[]" 15 initial_globals "[]"]
  by (simp add: example_cycle_def interrupted_def initial_globals_def)

end
